theory Spec2Isabelle
  imports Complex_Main "HOL-Library.Multiset"
begin

section \<open>The interaction space of cell2cell (core/interaction\_space.py)\<close>

text \<open>
  The module builds, for the cells (columns) of a binarised expression table, the list of
  cell pairs, the registry of cells and the cell-cell interaction (CCI) matrix, and fills the
  matrix by scoring every listed pair. What is printed to standard output under the
  \<open>verbose\<close> flag is not modelled; what a print statement reads is: an attribute that is
  not there raises before anything is printed. Floating-point scores are modelled as reals.
\<close>

subsection \<open>Data\<close>

type_synonym label = string

text \<open>
  A pandas DataFrame, addressed by labels as the source does (\<open>.loc\<close>, \<open>.columns\<close>):
  the row labels, the column labels and the value held under each (row, column) pair of labels.
  \<open>None\<close> stands for a position that is missing (NaN) or not in the frame.
\<close>

record 'a dataframe =
  index :: "label list"
  columns :: "label list"
  data :: "label \<times> label \<rightharpoonup> 'a"

datatype error = ValueError | KeyError | AttributeError
  | ConfigurationError | DataError | ScoringFailure

text \<open>The PPI table of one interaction type: rows (protein A, protein B, score).\<close>

type_synonym ppi = "(string \<times> string \<times> real) list"

text \<open>Values found in the \<open>gene_cutoffs\<close> dictionary.\<close>

datatype pyval = Str string | Num real | Frame "real dataframe"

text \<open>
  The \<open>gene_cutoffs\<close> argument: the source only calls \<open>.keys()\<close> on it, which a dict
  answers with its keys and a DataFrame with its column labels.
\<close>

datatype cutoff_spec = Descriptor "string \<rightharpoonup> pyval" | Table "real dataframe"

fun has_key :: "cutoff_spec \<Rightarrow> string \<Rightarrow> bool" where
  "has_key (Descriptor d) k = (d k \<noteq> None)"
| "has_key (Table t) k = (k \<in> set (columns t))"

text \<open>
  A Cell (class of cell2cell.core.cell): the attributes this module reads or assigns.
  \<open>binary_ppi\<close> is \<open>None\<close> until \<open>generate_interaction_elements\<close> assigns it.
\<close>

record cell =
  type :: label
  rnaseq_data :: "bool dataframe"
  binary_ppi :: "ppi option"

text \<open>
  What the module calls but does not define: the functions of cell2cell.preprocessing and
  cell2cell.core that it imports, each of which may raise, and the order in which the
  interpreter iterates over a set (\<open>list(set(...))\<close>), which Python leaves unspecified.
\<close>

record env =
  get_cutoffs :: "real dataframe \<Rightarrow> cutoff_spec \<Rightarrow> bool \<Rightarrow> error + real dataframe"
  get_binary_rnaseq :: "real dataframe \<Rightarrow> real dataframe \<Rightarrow> error + bool dataframe"
  cells_from_rnaseq :: "bool dataframe \<Rightarrow> bool \<Rightarrow> error + (label \<times> cell) list"
  get_binary_ppi :: "ppi \<Rightarrow> bool dataframe \<Rightarrow> string \<Rightarrow> error + ppi"
  cci_score_from_binary :: "cell \<Rightarrow> cell \<Rightarrow> error + real"
  pair_set_order :: "(label \<times> label) list \<Rightarrow> (label \<times> label) list"
  gene_set_order :: "string list \<Rightarrow> string list"

text \<open>An iteration order of sets lists exactly the elements it is given.\<close>

definition permuting :: "('a list \<Rightarrow> 'a list) \<Rightarrow> bool" where
  "permuting f = (\<forall>xs. mset (f xs) = mset xs)"

text \<open>
  The store of CCI matrices (DataFrames are mutable objects, shared by reference), the next
  unused address, and the log of the calls made to \<open>cci_score_from_binary\<close>.
\<close>

record world =
  heap :: "nat \<Rightarrow> real dataframe"
  next_addr :: nat
  calls :: "(cell \<times> cell) list"

text \<open>The dictionary \<open>interaction_space\<close> with its three keys.\<close>

record elements =
  pairs :: "(label \<times> label) list"
  cells :: "(label \<times> cell) list"
  cci_matrix :: nat

text \<open>
  The attributes of an InteractionSpace instance; \<open>None\<close> is an attribute that has not
  been assigned. \<open>product_filter\<close> and \<open>mediators\<close>, once assigned, hold a list or
  Python's \<open>None\<close>.
\<close>

record interaction_space =
  binary_rnaseq :: "bool dataframe option"
  interaction_type :: "string option"
  ppi_data :: "ppi option"
  interaction_elements :: "elements option"
  product_filter :: "string list option option"
  mediators :: "string list option option"

definition fresh_instance :: interaction_space where
  "fresh_instance = \<lparr>binary_rnaseq = None, interaction_type = None, ppi_data = None,
     interaction_elements = None, product_filter = None, mediators = None\<rparr>"

subsection \<open>generate\_interaction\_elements\<close>

text \<open>\<open>itertools.combinations(xs, 2)\<close>: the pairs of positions i < j, in order.\<close>

fun combinations2 :: "'a list \<Rightarrow> ('a \<times> 'a) list" where
  "combinations2 [] = []"
| "combinations2 (x # xs) = map (Pair x) xs @ combinations2 xs"

text \<open>
  \<open>pd.DataFrame(np.zeros((n, n)), columns=cs, index=cs)\<close>, where n is
  \<open>cell_number\<close>, the length of cs.
\<close>

definition zeros :: "label list \<Rightarrow> real dataframe" where
  "zeros cs = \<lparr>index = cs, columns = cs,
     data = (\<lambda>(r, c). if r \<in> set cs \<and> c \<in> set cs then Some 0 else None)\<rparr>"

text \<open>The loop assigning \<open>binary_ppi\<close> to every cell of the registry.\<close>

fun set_binary_ppi :: "env \<Rightarrow> ppi \<Rightarrow> (label \<times> cell) list \<Rightarrow> error + (label \<times> cell) list" where
  "set_binary_ppi K p [] = Inr []"
| "set_binary_ppi K p ((k, cell_instance) # rest) =
     (case get_binary_ppi K p (rnaseq_data cell_instance) ''value'' of
        Inl e \<Rightarrow> Inl e
      | Inr bp \<Rightarrow>
          (case set_binary_ppi K p rest of
             Inl e \<Rightarrow> Inl e
           | Inr rest' \<Rightarrow> Inr ((k, cell_instance\<lparr>binary_ppi := Some bp\<rparr>) # rest')))"

definition generate_interaction_elements ::
  "env \<Rightarrow> bool dataframe \<Rightarrow> ppi \<Rightarrow> string \<Rightarrow> nat option \<Rightarrow> bool \<Rightarrow> world
     \<Rightarrow> (error + elements) \<times> world" where
  "generate_interaction_elements K b p itype cci_matrix_template verbose w =
     (let cell_instances = columns b;
          pairwise_interactions = combinations2 (cell_instances @ cell_instances);
          pairwise_interactions = pair_set_order K (remdups pairwise_interactions)
      in case cells_from_rnaseq K b verbose of
           Inl e \<Rightarrow> (Inl e, w)
         | Inr cs \<Rightarrow>
             (case set_binary_ppi K p cs of
                Inl e \<Rightarrow> (Inl e, w)
              | Inr cs' \<Rightarrow>
                  (case cci_matrix_template of
                     None \<Rightarrow>
                       (Inr \<lparr>pairs = pairwise_interactions, cells = cs',
                             cci_matrix = next_addr w\<rparr>,
                        w\<lparr>heap := (heap w)(next_addr w := zeros cell_instances),
                          next_addr := Suc (next_addr w)\<rparr>)
                   | Some a \<Rightarrow>
                       (Inr \<lparr>pairs = pairwise_interactions, cells = cs', cci_matrix = a\<rparr>,
                        w))))"

subsection \<open>The class InteractionSpace\<close>

definition InteractionSpace_init ::
  "env \<Rightarrow> real dataframe \<Rightarrow> (string \<rightharpoonup> ppi) \<Rightarrow> string \<Rightarrow> cutoff_spec \<Rightarrow> nat option \<Rightarrow> bool
     \<Rightarrow> interaction_space \<Rightarrow> world \<Rightarrow> error option \<times> interaction_space \<times> world" where
  "InteractionSpace_init K rnaseq ppi_dict itype gene_cutoffs cci_matrix_template verbose self w =
     (if has_key gene_cutoffs ''type'' then
        (case get_cutoffs K rnaseq gene_cutoffs verbose of
           Inl e \<Rightarrow> (Some e, self, w)
         | Inr cutoff_values \<Rightarrow>
             (case get_binary_rnaseq K rnaseq cutoff_values of
                Inl e \<Rightarrow> (Some e, self, w)
              | Inr b \<Rightarrow>
                  (let self1 = self\<lparr>binary_rnaseq := Some b\<rparr>;
                       self2 = self1\<lparr>interaction_type := Some itype\<rparr>
                   in case ppi_dict itype of
                        None \<Rightarrow> (Some KeyError, self2, w)
                      | Some p \<Rightarrow>
                          (let self3 = self2\<lparr>ppi_data := Some p\<rparr>
                           in case generate_interaction_elements K b p itype
                                     cci_matrix_template verbose w of
                                (Inl e, w') \<Rightarrow> (Some e, self3, w')
                              | (Inr E, w') \<Rightarrow>
                                  (None, self3\<lparr>interaction_elements := Some E\<rparr>, w')))))
      else (Some ValueError, self, w))"

text \<open>
  With \<open>verbose\<close>, the method first formats \<open>self.interaction_type\<close>, \<open>cell1.type\<close>
  and \<open>cell2.type\<close> into the line it prints: on an instance without the attribute
  \<open>interaction_type\<close> that read raises AttributeError, before the scorer is called.
\<close>

definition pairwise_interaction ::
  "env \<Rightarrow> interaction_space \<Rightarrow> cell \<Rightarrow> cell \<Rightarrow> bool \<Rightarrow> world \<Rightarrow> (error + real) \<times> world" where
  "pairwise_interaction K self cell1 cell2 verbose w =
     (if verbose \<and> interaction_type self = None then (Inl AttributeError, w)
      else (cci_score_from_binary K cell1 cell2, w\<lparr>calls := calls w @ [(cell1, cell2)]\<rparr>))"

text \<open>
  \<open>df.loc[r, c] = v\<close>: the value under (r, c) becomes v; a label the frame does not have
  is appended to its axis (pandas' setting with enlargement).
\<close>

definition add_label :: "label list \<Rightarrow> label \<Rightarrow> label list" where
  "add_label ls l = (if l \<in> set ls then ls else ls @ [l])"

definition loc_set :: "'a dataframe \<Rightarrow> label \<Rightarrow> label \<Rightarrow> 'a \<Rightarrow> 'a dataframe" where
  "loc_set df r c v =
     df\<lparr>index := add_label (index df) r,
        columns := add_label (columns df) c,
        data := (data df)((r, c) \<mapsto> v)\<rparr>"

definition store_loc :: "nat \<Rightarrow> label \<Rightarrow> label \<Rightarrow> real \<Rightarrow> world \<Rightarrow> world" where
  "store_loc a r c v w = w\<lparr>heap := (heap w)(a := loc_set (heap w a) r c v)\<rparr>"

text \<open>The body of the loop of \<open>compute_pairwise_interactions\<close>, over the remaining pairs.\<close>

fun pairs_loop ::
  "env \<Rightarrow> interaction_space \<Rightarrow> elements \<Rightarrow> bool \<Rightarrow> (label \<times> label) list \<Rightarrow> world
     \<Rightarrow> error option \<times> world" where
  "pairs_loop K self E verbose [] w = (None, w)"
| "pairs_loop K self E verbose (pair # rest) w =
     (case map_of (cells E) (fst pair) of
        None \<Rightarrow> (Some KeyError, w)
      | Some cell1 \<Rightarrow>
          (case map_of (cells E) (snd pair) of
             None \<Rightarrow> (Some KeyError, w)
           | Some cell2 \<Rightarrow>
               (case pairwise_interaction K self cell1 cell2 verbose w of
                  (Inl e, w1) \<Rightarrow> (Some e, w1)
                | (Inr cci_score, w1) \<Rightarrow>
                    pairs_loop K self E verbose rest
                      (store_loc (cci_matrix E) (snd pair) (fst pair) cci_score
                        (store_loc (cci_matrix E) (fst pair) (snd pair) cci_score w1)))))"

definition compute_pairwise_interactions ::
  "env \<Rightarrow> interaction_space \<Rightarrow> bool \<Rightarrow> world \<Rightarrow> error option \<times> world" where
  "compute_pairwise_interactions K self verbose w =
     (case interaction_elements self of
        None \<Rightarrow> (Some AttributeError, w)
      | Some E \<Rightarrow> pairs_loop K self E verbose (pairs E) w)"

definition get_genes_for_filter :: "env \<Rightarrow> interaction_space \<Rightarrow> error + string list" where
  "get_genes_for_filter K self =
     (case product_filter self of
        None \<Rightarrow> Inl AttributeError
      | Some pf \<Rightarrow>
          (let genes = (case pf of None \<Rightarrow> [] | Some l \<Rightarrow> [] @ l)
           in case mediators self of
                None \<Rightarrow> Inl AttributeError
              | Some md \<Rightarrow>
                  (let genes' = (case md of None \<Rightarrow> genes | Some l \<Rightarrow> genes @ l)
                   in Inr (gene_set_order K (remdups genes')))))"

subsection \<open>The collaborators, from the specification\<close>

text \<open>
  Modelled from the spec: \<open>cutoffs.get_cutoffs\<close> (the Cutoff Resolver of section 4.1), whose
  code is not in this module. A precomputed table is returned unchanged; otherwise the
  descriptor names a method under \<open>type\<close>. The spec lists the fixed constant as a supported
  method and leaves the key names open: here the method is \<open>constant_value\<close> and its value
  is under \<open>parameter\<close>. The resolved table has one column, \<open>value\<close>, with the threshold
  of every gene of the expression table. Anything else is a ConfigurationError.
\<close>

definition spec_get_cutoffs :: "real dataframe \<Rightarrow> cutoff_spec \<Rightarrow> bool \<Rightarrow> error + real dataframe" where
  "spec_get_cutoffs rnaseq gene_cutoffs verbose =
     (case gene_cutoffs of
        Table t \<Rightarrow> Inr t
      | Descriptor d \<Rightarrow>
          (case (d ''type'', d ''parameter'') of
             (Some (Str m), Some (Num v)) \<Rightarrow>
               if m = ''constant_value''
               then Inr \<lparr>index = index rnaseq, columns = [''value''],
                         data = (\<lambda>(g, c). if g \<in> set (index rnaseq) \<and> c = ''value''
                                           then Some v else None)\<rparr>
               else Inl ConfigurationError
           | _ \<Rightarrow> Inl ConfigurationError))"

text \<open>
  Modelled from the spec: \<open>integrate_data.get_binary_rnaseq\<close> (the Expression Binarizer of
  section 4.2), whose code is not in this module: elementwise, a value is present iff it is at
  least the threshold of its gene. A gene without a threshold is a ConfigurationError
  (section 4.1: the thresholds must cover every gene).
\<close>

definition spec_get_binary_rnaseq :: "real dataframe \<Rightarrow> real dataframe \<Rightarrow> error + bool dataframe" where
  "spec_get_binary_rnaseq rnaseq cutoff_values =
     (if \<forall>g \<in> set (index rnaseq). data cutoff_values (g, ''value'') \<noteq> None
      then Inr \<lparr>index = index rnaseq, columns = columns rnaseq,
                data = (\<lambda>(g, c). case (data rnaseq (g, c), data cutoff_values (g, ''value'')) of
                                    (Some x, Some t) \<Rightarrow> Some (t \<le> x)
                                  | _ \<Rightarrow> None)\<rparr>
      else Inl ConfigurationError)"

text \<open>
  Modelled from the spec: \<open>cell.cells_from_rnaseq\<close> (the Cell Registry of section 4.3), whose
  code is not in this module: one Cell per column, identified by the column label, holding
  that column of the binary table under the column name \<open>value\<close>; a duplicated label or
  an empty table is a DataError.
\<close>

definition spec_cells_from_rnaseq :: "bool dataframe \<Rightarrow> bool \<Rightarrow> error + (label \<times> cell) list" where
  "spec_cells_from_rnaseq b verbose =
     (if \<not> distinct (columns b) \<or> columns b = [] \<or> index b = [] then Inl DataError
      else Inr (map (\<lambda>c. (c, \<lparr>type = c,
                               rnaseq_data = \<lparr>index = index b, columns = [''value''],
                                 data = (\<lambda>(g, k). if k = ''value'' then data b (g, c) else None)\<rparr>,
                               binary_ppi = None\<rparr>))
                     (columns b)))"

text \<open>
  Modelled from the spec: \<open>integrate_data.get_binary_ppi\<close> (the PPI Restrictor of section
  4.4), whose code is not in this module: an edge is kept iff both its proteins are active in
  the cell; a protein absent from the table counts as inactive.
\<close>

definition spec_get_binary_ppi :: "ppi \<Rightarrow> bool dataframe \<Rightarrow> string \<Rightarrow> error + ppi" where
  "spec_get_binary_ppi p rd column =
     Inr (filter (\<lambda>(pa, pb, s). data rd (pa, column) = Some True \<and> data rd (pb, column) = Some True) p)"

text \<open>
  Modelled from the spec: \<open>compute_interaction.cci_score_from_binary\<close> (the Pairwise Scorer
  of section 4.5), whose code is not in this module. Following scenario A of section 8, the
  qualifying edges of a pair of cells are the edges kept in the restricted networks of both
  cells, each counted once, and the score is the sum of their weights. A cell without a
  restricted network is structurally invalid: a ScoringFailure (section 7).
\<close>

definition qualifying_edges :: "ppi \<Rightarrow> ppi \<Rightarrow> ppi" where
  "qualifying_edges p1 p2 = remdups (filter (\<lambda>e. e \<in> set p2) p1)"

definition spec_cci_score_from_binary :: "cell \<Rightarrow> cell \<Rightarrow> error + real" where
  "spec_cci_score_from_binary cell1 cell2 =
     (case binary_ppi cell1 of
        None \<Rightarrow> Inl ScoringFailure
      | Some p1 \<Rightarrow>
          (case binary_ppi cell2 of
             None \<Rightarrow> Inl ScoringFailure
           | Some p2 \<Rightarrow> Inr (sum_list (map (\<lambda>(pa, pb, s). s) (qualifying_edges p1 p2)))))"

text \<open>
  Modelled from the spec: the Pairwise Scorer of section 4.5 with its pluggable aggregation
  (sections 4.5 and 9: the aggregation is a configured strategy, not one fixed formula). The
  strategy \<open>agg\<close> combines the weights of all qualifying edges, which it receives as a
  multiset, into one scalar; the score is 0 when there is no qualifying edge. The sum, the
  mean and the maximum, which section 4.5 names, are such strategies; the sum (\<open>sum_mset\<close>)
  is the strategy of scenario A, and with it this scorer is \<open>spec_cci_score_from_binary\<close>.
\<close>

definition spec_score_with :: "(real multiset \<Rightarrow> real) \<Rightarrow> cell \<Rightarrow> cell \<Rightarrow> error + real" where
  "spec_score_with agg cell1 cell2 =
     (case binary_ppi cell1 of
        None \<Rightarrow> Inl ScoringFailure
      | Some p1 \<Rightarrow>
          (case binary_ppi cell2 of
             None \<Rightarrow> Inl ScoringFailure
           | Some p2 \<Rightarrow>
               Inr (if qualifying_edges p1 p2 = [] then 0
                    else agg (mset (map (\<lambda>(pa, pb, s). s) (qualifying_edges p1 p2))))))"

definition spec_env :: env where
  "spec_env = \<lparr>get_cutoffs = spec_get_cutoffs, get_binary_rnaseq = spec_get_binary_rnaseq,
     cells_from_rnaseq = spec_cells_from_rnaseq, get_binary_ppi = spec_get_binary_ppi,
     cci_score_from_binary = spec_cci_score_from_binary,
     pair_set_order = (\<lambda>xs. xs), gene_set_order = (\<lambda>xs. xs)\<rparr>"

subsection \<open>A small analysis\<close>

text \<open>
  Two genes, two cells: cell A expresses both genes at or above the cutoff 1, cell B only g1;
  one interaction (g1, g2) of weight 0.8, as in scenario A of the specification.
\<close>

definition ex_rnaseq :: "real dataframe" where
  "ex_rnaseq = \<lparr>index = [''g1'', ''g2''], columns = [''A'', ''B''],
     data = map_of [((''g1'', ''A''), 2), ((''g2'', ''A''), 3),
                    ((''g1'', ''B''), 1), ((''g2'', ''B''), 0)]\<rparr>"

definition ex_ppi_dict :: "string \<rightharpoonup> ppi" where
  "ex_ppi_dict = [''physical'' \<mapsto> [(''g1'', ''g2'', 8 / 10)]]"

definition ex_cutoffs :: cutoff_spec where
  "ex_cutoffs = Descriptor [''type'' \<mapsto> Str ''constant_value'', ''parameter'' \<mapsto> Num 1]"

text \<open>A precomputed threshold table, alone or inside a dictionary that names no method.\<close>

definition ex_table :: "real dataframe" where
  "ex_table = \<lparr>index = [''g1'', ''g2''], columns = [''value''],
     data = map_of [((''g1'', ''value''), 1), ((''g2'', ''value''), 1)]\<rparr>"

definition ex_table_dict :: cutoff_spec where
  "ex_table_dict = Descriptor [''dataframe'' \<mapsto> Frame ex_table]"

text \<open>A store whose address 0 holds a matrix labelled X, not A and B.\<close>

definition ex_template :: "real dataframe" where
  "ex_template = \<lparr>index = [''X''], columns = [''X''], data = map_of [((''X'', ''X''), 5)]\<rparr>"

definition w0 :: world where
  "w0 = \<lparr>heap = (\<lambda>a. \<lparr>index = [], columns = [], data = Map.empty\<rparr>), next_addr = 0, calls = []\<rparr>"

definition w_template :: world where
  "w_template = w0\<lparr>heap := (heap w0)(0 := ex_template), next_addr := 1\<rparr>"


text \<open>Construction on the small analysis, and the scoring pass on what it built.\<close>

definition ex_init :: "env \<Rightarrow> nat option \<Rightarrow> world \<Rightarrow> error option \<times> interaction_space \<times> world" where
  "ex_init K tmpl w =
     InteractionSpace_init K ex_rnaseq ex_ppi_dict ''physical'' ex_cutoffs tmpl False fresh_instance w"

definition ex_run :: "env \<Rightarrow> nat option \<Rightarrow> world \<Rightarrow> error option \<times> world" where
  "ex_run K tmpl w =
     compute_pairwise_interactions K (fst (snd (ex_init K tmpl w))) False (snd (snd (ex_init K tmpl w)))"

text \<open>
  Two cells with their restricted networks: both genes active and one edge in the first, no
  gene active and no edge in the second. An instance on which \<open>interaction_type\<close> is set.
\<close>

definition ex_cell_A :: cell where
  "ex_cell_A = \<lparr>type = ''A'',
     rnaseq_data = \<lparr>index = [''g1'', ''g2''], columns = [''value''],
       data = map_of [((''g1'', ''value''), True), ((''g2'', ''value''), True)]\<rparr>,
     binary_ppi = Some [(''g1'', ''g2'', 8 / 10)]\<rparr>"

definition ex_cell_Z :: cell where
  "ex_cell_Z = \<lparr>type = ''Z'',
     rnaseq_data = \<lparr>index = [''g1'', ''g2''], columns = [''value''],
       data = map_of [((''g1'', ''value''), False), ((''g2'', ''value''), False)]\<rparr>,
     binary_ppi = Some []\<rparr>"

definition ex_typed_instance :: interaction_space where
  "ex_typed_instance = fresh_instance\<lparr>interaction_type := Some ''physical''\<rparr>"

section \<open>Properties\<close>

subsection \<open>The pair list and construction\<close>

lemma combinations2_subset: "set (combinations2 xs) \<subseteq> set xs \<times> set xs"
  by (induction xs) auto

lemma set_combinations2_append:
  "set (combinations2 (xs @ ys)) = set (combinations2 xs) \<union> set xs \<times> set ys \<union> set (combinations2 ys)"
  by (induction xs) auto

lemma set_combinations2_doubled: "set (combinations2 (xs @ xs)) = set xs \<times> set xs"
  using combinations2_subset [of xs] by (auto simp: set_combinations2_append)

lemma permuting_set: "permuting f \<Longrightarrow> set (f xs) = set xs"
  unfolding permuting_def by (metis mset_eq_setD)

lemma permuting_distinct: "permuting f \<Longrightarrow> distinct (f xs) = distinct xs"
  unfolding permuting_def by (metis mset_eq_imp_distinct_iff)

lemma gie_result:
  assumes "generate_interaction_elements K b p itype tmpl verbose w = (Inr E, w1)"
  shows "pairs E = pair_set_order K (remdups (combinations2 (columns b @ columns b)))"
    and "tmpl = Some a \<Longrightarrow> cci_matrix E = a \<and> w1 = w"
    and "tmpl = None \<Longrightarrow> cci_matrix E = next_addr w
           \<and> w1 = w\<lparr>heap := (heap w)(next_addr w := zeros (columns b)), next_addr := Suc (next_addr w)\<rparr>"
    and "\<exists>cs. cells_from_rnaseq K b verbose = Inr cs \<and> set_binary_ppi K p cs = Inr (cells E)"
  using assms
  by (auto simp: generate_interaction_elements_def Let_def split: sum.splits option.splits)

lemma init_result:
  assumes "InteractionSpace_init K rnaseq ppi_dict itype gc tmpl verbose self w = (None, self', w1)"
  shows "\<exists>cv b p E. has_key gc ''type'' \<and> get_cutoffs K rnaseq gc verbose = Inr cv
           \<and> get_binary_rnaseq K rnaseq cv = Inr b \<and> ppi_dict itype = Some p
           \<and> generate_interaction_elements K b p itype tmpl verbose w = (Inr E, w1)
           \<and> self' = self\<lparr>binary_rnaseq := Some b, interaction_type := Some itype,
                          ppi_data := Some p, interaction_elements := Some E\<rparr>"
  using assms
  by (auto simp: InteractionSpace_init_def Let_def split: if_splits sum.splits option.splits prod.splits)

subsection \<open>The scoring loop\<close>

lemma store_loc_heap_other: "b \<noteq> a \<Longrightarrow> heap (store_loc a r c v w) b = heap w b"
  by (simp add: store_loc_def)

lemma store_loc_data:
  "data (heap (store_loc a r c v w) a) k = (if k = (r, c) then Some v else data (heap w a) k)"
  by (simp add: store_loc_def loc_set_def)

lemma store_loc_calls: "calls (store_loc a r c v w) = calls w"
  by (simp add: store_loc_def)

lemma heap_calls_update: "heap (w\<lparr>calls := cs\<rparr>) = heap w"
  by simp

lemma store_twice_data:
  "data (heap (store_loc a y x s (store_loc a x y s (w\<lparr>calls := cs\<rparr>))) a) k
     = (if k = (y, x) \<or> k = (x, y) then Some s else data (heap w a) k)"
  apply (simp only: store_loc_data heap_calls_update)
  apply (cases "k = (y, x)")
   apply (simp_all only: if_True if_False simp_thms)
  done

lemma pairs_loop_Cons_ok:
  assumes "pairs_loop K self E verbose (pair # rest) w = (None, w')"
  obtains cell1 cell2 s where
    "map_of (cells E) (fst pair) = Some cell1" "map_of (cells E) (snd pair) = Some cell2"
    "cci_score_from_binary K cell1 cell2 = Inr s"
    "pairs_loop K self E verbose rest
       (store_loc (cci_matrix E) (snd pair) (fst pair) s
         (store_loc (cci_matrix E) (fst pair) (snd pair) s
           (w\<lparr>calls := calls w @ [(cell1, cell2)]\<rparr>))) = (None, w')"
  using assms
  by (auto simp: pairwise_interaction_def split: option.splits sum.splits if_splits)

lemma pairs_loop_heap_other:
  "pairs_loop K self E verbose ps w = (r, w') \<Longrightarrow> b \<noteq> cci_matrix E \<Longrightarrow> heap w' b = heap w b"
proof (induction ps arbitrary: w)
  case Nil
  then show ?case by simp
next
  case (Cons pair rest)
  then show ?case
    by (auto simp: pairwise_interaction_def store_loc_heap_other
             split: option.splits sum.splits if_splits)
qed

lemma pairs_loop_untouched:
  "pairs_loop K self E verbose ps w = (r, w') \<Longrightarrow> (i, j) \<notin> set ps \<Longrightarrow> (j, i) \<notin> set ps
     \<Longrightarrow> data (heap w' (cci_matrix E)) (i, j) = data (heap w (cci_matrix E)) (i, j)"
proof (induction ps arbitrary: w)
  case Nil
  then show ?case by simp
next
  case (Cons pair rest)
  from Cons.prems have ne: "(i, j) \<noteq> pair" "(j, i) \<noteq> pair" "(i, j) \<notin> set rest" "(j, i) \<notin> set rest"
    by auto
  then have ne': "(i, j) \<noteq> (fst pair, snd pair)" "(i, j) \<noteq> (snd pair, fst pair)"
    by auto
  show ?case
    using Cons.prems(1) Cons.IH [OF _ ne(3,4)] ne'
    by (auto simp: pairwise_interaction_def store_loc_data
             split: option.splits sum.splits if_splits)
qed

lemma pairs_loop_written:
  assumes "pairs_loop K self E verbose ps w = (None, w')"
    and "(i, j) \<in> set ps \<or> (j, i) \<in> set ps"
  shows "\<exists>c1 c2 s. map_of (cells E) i = Some c1 \<and> map_of (cells E) j = Some c2
           \<and> data (heap w' (cci_matrix E)) (i, j) = Some s
           \<and> (cci_score_from_binary K c1 c2 = Inr s \<or> cci_score_from_binary K c2 c1 = Inr s)"
  using assms
proof (induction ps arbitrary: w)
  case Nil
  then show ?case by simp
next
  case (Cons pair rest)
  from Cons.prems(1) obtain cell1 cell2 s where
    c1: "map_of (cells E) (fst pair) = Some cell1" and c2: "map_of (cells E) (snd pair) = Some cell2"
    and sc: "cci_score_from_binary K cell1 cell2 = Inr s"
    and rest: "pairs_loop K self E verbose rest
       (store_loc (cci_matrix E) (snd pair) (fst pair) s
         (store_loc (cci_matrix E) (fst pair) (snd pair) s
           (w\<lparr>calls := calls w @ [(cell1, cell2)]\<rparr>))) = (None, w')"
    by (rule pairs_loop_Cons_ok)
  show ?case
  proof (cases "(i, j) \<in> set rest \<or> (j, i) \<in> set rest")
    case True
    then show ?thesis using Cons.IH [OF rest] by simp
  next
    case False
    then have here: "(i, j) = pair \<or> (j, i) = pair" using Cons.prems(2) by auto
    have "data (heap w' (cci_matrix E)) (i, j)
            = data (heap (store_loc (cci_matrix E) (snd pair) (fst pair) s
                 (store_loc (cci_matrix E) (fst pair) (snd pair) s
                   (w\<lparr>calls := calls w @ [(cell1, cell2)]\<rparr>))) (cci_matrix E)) (i, j)"
      using pairs_loop_untouched [OF rest] False by simp
    also have "\<dots> = Some s" using here by (auto simp: store_loc_data)
    finally show ?thesis using here c1 c2 sc by auto
  qed
qed

lemma pairs_loop_symmetric:
  assumes "pairs_loop K self E verbose ps w = (None, w')"
    and "(i, j) \<in> set ps \<or> (j, i) \<in> set ps
           \<or> data (heap w (cci_matrix E)) (i, j) = data (heap w (cci_matrix E)) (j, i)"
  shows "data (heap w' (cci_matrix E)) (i, j) = data (heap w' (cci_matrix E)) (j, i)"
  using assms
proof (induction ps arbitrary: w)
  case Nil
  then show ?case by simp
next
  case (Cons pair rest)
  from Cons.prems(1) obtain cell1 cell2 s where
    rest: "pairs_loop K self E verbose rest
       (store_loc (cci_matrix E) (snd pair) (fst pair) s
         (store_loc (cci_matrix E) (fst pair) (snd pair) s
           (w\<lparr>calls := calls w @ [(cell1, cell2)]\<rparr>))) = (None, w')"
    by (rule pairs_loop_Cons_ok)
  obtain x y where pair: "pair = (x, y)" by (cases pair)
  let ?w3 = "store_loc (cci_matrix E) (snd pair) (fst pair) s
                 (store_loc (cci_matrix E) (fst pair) (snd pair) s
                   (w\<lparr>calls := calls w @ [(cell1, cell2)]\<rparr>))"
  have d3: "data (heap ?w3 (cci_matrix E)) k
              = (if k = (y, x) \<or> k = (x, y) then Some s else data (heap w (cci_matrix E)) k)" for k
    unfolding pair fst_conv snd_conv by (rule store_twice_data)
  show ?case
  proof (rule Cons.IH [OF rest])
    show "(i, j) \<in> set rest \<or> (j, i) \<in> set rest
       \<or> data (heap ?w3 (cci_matrix E)) (i, j) = data (heap ?w3 (cci_matrix E)) (j, i)"
    proof (cases "(i, j) = (x, y) \<or> (i, j) = (y, x)")
      case True
      then have "(j, i) = (y, x) \<or> (j, i) = (x, y)" by auto
      with True show ?thesis unfolding d3 by auto
    next
      case False
      then have "\<not> ((j, i) = (y, x) \<or> (j, i) = (x, y))" by auto
      with False have "data (heap ?w3 (cci_matrix E)) (i, j) = data (heap w (cci_matrix E)) (i, j)"
        and "data (heap ?w3 (cci_matrix E)) (j, i) = data (heap w (cci_matrix E)) (j, i)"
        unfolding d3 by auto
      moreover from False pair Cons.prems(2)
      have "(i, j) \<in> set rest \<or> (j, i) \<in> set rest
              \<or> data (heap w (cci_matrix E)) (i, j) = data (heap w (cci_matrix E)) (j, i)"
        by auto
      ultimately show ?thesis by metis
    qed
  qed
qed

lemma pairs_loop_calls:
  assumes "pairs_loop K self E verbose ps w = (None, w')"
  shows "\<exists>new. calls w' = calls w @ new
           \<and> (\<forall>p \<in> set ps. \<exists>c1 c2. map_of (cells E) (fst p) = Some c1
                 \<and> map_of (cells E) (snd p) = Some c2 \<and> (c1, c2) \<in> set new)"
  using assms
proof (induction ps arbitrary: w)
  case Nil
  then show ?case by simp
next
  case (Cons pair rest)
  from Cons.prems(1) obtain cell1 cell2 s where
    c1: "map_of (cells E) (fst pair) = Some cell1" and c2: "map_of (cells E) (snd pair) = Some cell2"
    and rest: "pairs_loop K self E verbose rest
       (store_loc (cci_matrix E) (snd pair) (fst pair) s
         (store_loc (cci_matrix E) (fst pair) (snd pair) s
           (w\<lparr>calls := calls w @ [(cell1, cell2)]\<rparr>))) = (None, w')"
    by (rule pairs_loop_Cons_ok)
  from Cons.IH [OF rest] obtain new where
    new: "calls w' = (calls w @ [(cell1, cell2)]) @ new"
    and all: "\<forall>p \<in> set rest. \<exists>c1 c2. map_of (cells E) (fst p) = Some c1
                 \<and> map_of (cells E) (snd p) = Some c2 \<and> (c1, c2) \<in> set new"
    by (auto simp: store_loc_calls)
  have "calls w' = calls w @ ((cell1, cell2) # new)" using new by simp
  moreover have "\<forall>p \<in> set (pair # rest). \<exists>c1 c2. map_of (cells E) (fst p) = Some c1
                 \<and> map_of (cells E) (snd p) = Some c2 \<and> (c1, c2) \<in> set ((cell1, cell2) # new)"
    using all c1 c2 by auto
  ultimately show ?case by blast
qed






subsection \<open>The scorer of the specification\<close>

lemma qualifying_edges_set: "set (qualifying_edges p1 p2) = set p1 \<inter> set p2"
  by (auto simp: qualifying_edges_def)

lemma qualifying_edges_mset: "mset (qualifying_edges p1 p2) = mset (qualifying_edges p2 p1)"
proof -
  have "distinct (qualifying_edges p1 p2)" "distinct (qualifying_edges p2 p1)"
    by (simp_all add: qualifying_edges_def)
  moreover have "set (qualifying_edges p1 p2) = set (qualifying_edges p2 p1)"
    by (auto simp: qualifying_edges_set)
  ultimately show ?thesis by (simp add: set_eq_iff_mset_eq_distinct)
qed

lemma spec_score_with_commute: "spec_score_with agg c1 c2 = spec_score_with agg c2 c1"
proof (cases "binary_ppi c1")
  case None
  then show ?thesis by (simp add: spec_score_with_def split: option.splits)
next
  case p1: (Some p1)
  show ?thesis
  proof (cases "binary_ppi c2")
    case None
    then show ?thesis by (simp add: spec_score_with_def split: option.splits)
  next
    case p2: (Some p2)
    have e: "(qualifying_edges p1 p2 = []) = (qualifying_edges p2 p1 = [])"
      using qualifying_edges_mset [of p1 p2] by (metis mset_zero_iff)
    have "mset (map (\<lambda>(pa :: string, pb :: string, s :: real). s) (qualifying_edges p1 p2))
            = mset (map (\<lambda>(pa, pb, s). s) (qualifying_edges p2 p1))"
      using qualifying_edges_mset [of p1 p2] by (metis mset_map)
    with e p1 p2 show ?thesis by (simp add: spec_score_with_def)
  qed
qed


subsection \<open>The small analysis, evaluated\<close>

lemmas ex_defs = ex_init_def InteractionSpace_init_def generate_interaction_elements_def
  spec_env_def spec_get_cutoffs_def spec_get_binary_rnaseq_def spec_cells_from_rnaseq_def
  spec_get_binary_ppi_def ex_rnaseq_def ex_ppi_dict_def ex_cutoffs_def fresh_instance_def Let_def

lemma permuting_spec_env: "permuting (pair_set_order spec_env)"
  by (simp add: permuting_def spec_env_def)

lemma ex_init_ok: "fst (ex_init spec_env None w0) = None"
  by (simp add: ex_defs w0_def)

lemma ex_init_pairs:
  "map_option pairs (interaction_elements (fst (snd (ex_init spec_env None w0))))
     = Some [(''A'', ''A''), (''B'', ''A''), (''B'', ''B''), (''A'', ''B'')]"
  by (simp add: ex_defs w0_def)

lemma ex_init_columns:
  "map_option columns (binary_rnaseq (fst (snd (ex_init spec_env None w0)))) = Some [''A'', ''B'']"
  by (simp add: ex_defs w0_def)

subsection \<open>The pair list built at construction\<close>

text \<open>
  C1 (as stated, refuted). The claim: for C distinct cell labels the pair list holds exactly
  C(C-1)/2 pairs, no self-pair and no unordered pair twice. For the two cells A and B the
  list built at construction holds four pairs, the self-pairs (A, A) and (B, B) among them,
  and the pair of A and B in both orders.
\<close>

theorem pairs_claim_counterexample:
  "map_option columns (binary_rnaseq (fst (snd (ex_init spec_env None w0)))) = Some [''A'', ''B'']
   \<and> map_option pairs (interaction_elements (fst (snd (ex_init spec_env None w0))))
       = Some [(''A'', ''A''), (''B'', ''A''), (''B'', ''B''), (''A'', ''B'')]
   \<and> length [(''A'', ''A''), (''B'', ''A''), (''B'', ''B''), (''A'', ''B'')]
       \<noteq> length [''A'', ''B''] * (length [''A'', ''B''] - 1) div 2"
  using ex_init_pairs ex_init_columns by simp

text \<open>
  C1 (amended). For a binary expression table whose columns carry C distinct labels, the
  pair list built at construction holds exactly C * C pairs: every ordered pair of cell
  labels, the self-pairs included, each exactly once.
\<close>

theorem pairs_all_ordered_pairs:
  assumes "permuting (pair_set_order K)"
    and "generate_interaction_elements K b p itype tmpl verbose w = (Inr E, w1)"
  shows "set (pairs E) = set (columns b) \<times> set (columns b)
         \<and> distinct (pairs E)
         \<and> length (pairs E) = card (set (columns b)) * card (set (columns b))"
proof -
  let ?zs = "combinations2 (columns b @ columns b)"
  have ps: "pairs E = pair_set_order K (remdups ?zs)"
    using assms(2) by (rule gie_result(1))
  have s: "set (pairs E) = set (columns b) \<times> set (columns b)"
    by (simp add: ps permuting_set [OF assms(1)] set_combinations2_doubled)
  have d: "distinct (pairs E)"
    by (simp add: ps permuting_distinct [OF assms(1)])
  have "length (pairs E) = card (set (pairs E))"
    using d by (simp add: distinct_card)
  also have "\<dots> = card (set (columns b)) * card (set (columns b))"
    unfolding s by (rule card_cartesian_product)
  finally show ?thesis using s d by simp
qed

theorem pairs_all_ordered_pairs_witness:
  "permuting (pair_set_order spec_env)
   \<and> length (pairs (projr (fst (generate_interaction_elements spec_env
         \<lparr>index = [''g1''], columns = [''A'', ''B''], data = Map.empty\<rparr> [] ''physical'' None False w0))))
       = card {''A'', ''B''} * card {''A'', ''B''}"
proof -
  let ?b = "\<lparr>index = [''g1''], columns = [''A'', ''B''], data = Map.empty\<rparr> :: bool dataframe"
  let ?G = "generate_interaction_elements spec_env ?b [] ''physical'' None False w0"
  have "\<not> isl (fst ?G)"
    by (simp add: generate_interaction_elements_def spec_env_def spec_cells_from_rnaseq_def
          spec_get_binary_ppi_def Let_def)
  then have g: "?G = (Inr (projr (fst ?G)), snd ?G)"
    by (simp add: prod_eq_iff)
  show ?thesis
    using pairs_all_ordered_pairs [OF permuting_spec_env g] permuting_spec_env by simp
qed

subsection \<open>Construction without a method\<close>

text \<open>
  C5. A \<open>gene_cutoffs\<close> argument without a \<open>type\<close> entry makes construction raise
  (ValueError), before anything is attached to the instance: no binarised expression, no
  interaction elements (cell registry, CCI matrix), and no matrix has been created.
\<close>

theorem no_method_raises:
  assumes "\<not> has_key gene_cutoffs ''type''"
  shows "InteractionSpace_init K rnaseq ppi_dict itype gene_cutoffs tmpl verbose fresh_instance w
           = (Some ValueError, fresh_instance, w)
         \<and> binary_rnaseq fresh_instance = None
         \<and> interaction_elements fresh_instance = None"
  using assms by (simp add: InteractionSpace_init_def fresh_instance_def)

theorem no_method_raises_witness:
  "\<not> has_key (Descriptor [''parameter'' \<mapsto> Num 1]) ''type''
   \<and> InteractionSpace_init spec_env ex_rnaseq ex_ppi_dict ''physical''
         (Descriptor [''parameter'' \<mapsto> Num 1]) None False fresh_instance w0
       = (Some ValueError, fresh_instance, w0)"
proof -
  have h: "\<not> has_key (Descriptor [''parameter'' \<mapsto> Num 1]) ''type''" by simp
  show ?thesis using no_method_raises [OF h] h by blast
qed

subsection \<open>Reading the gene filter\<close>

text \<open>
  C10. On every instance that \<open>__init__\<close> has built, \<open>get_genes_for_filter\<close> raises
  AttributeError: \<open>__init__\<close> assigns neither \<open>product_filter\<close> nor \<open>mediators\<close>.
\<close>

theorem get_genes_for_filter_raises:
  assumes "InteractionSpace_init K rnaseq ppi_dict itype gene_cutoffs tmpl verbose fresh_instance w
             = (None, self, w1)"
  shows "get_genes_for_filter K self = Inl AttributeError"
proof -
  from init_result [OF assms] have "product_filter self = None"
    by (auto simp: fresh_instance_def)
  then show ?thesis by (simp add: get_genes_for_filter_def)
qed

theorem get_genes_for_filter_raises_witness:
  "fst (ex_init spec_env None w0) = None
   \<and> get_genes_for_filter spec_env (fst (snd (ex_init spec_env None w0))) = Inl AttributeError"
proof -
  have i: "InteractionSpace_init spec_env ex_rnaseq ex_ppi_dict ''physical'' ex_cutoffs None False
             fresh_instance w0
           = (None, fst (snd (ex_init spec_env None w0)), snd (snd (ex_init spec_env None w0)))"
    using ex_init_ok by (simp add: ex_init_def prod_eq_iff)
  show ?thesis using get_genes_for_filter_raises [OF i] ex_init_ok by simp
qed

subsection \<open>The scoring pass on a constructed instance\<close>

lemma constructed_run:
  assumes "InteractionSpace_init K rnaseq ppi_dict itype gc tmpl verbose self0 w = (None, self, w1)"
    and "compute_pairwise_interactions K self verbose' w1 = (r, w2)"
    and "interaction_elements self = Some E" and "binary_rnaseq self = Some b"
  shows "\<exists>p. generate_interaction_elements K b p itype tmpl verbose w = (Inr E, w1)"
    and "pairs_loop K self E verbose' (pairs E) w1 = (r, w2)"
proof -
  from init_result [OF assms(1)] assms(3,4)
  show "\<exists>p. generate_interaction_elements K b p itype tmpl verbose w = (Inr E, w1)"
    by auto
  from assms(2,3) show "pairs_loop K self E verbose' (pairs E) w1 = (r, w2)"
    by (simp add: compute_pairwise_interactions_def)
qed

lemma constructed_pairs:
  assumes "permuting (pair_set_order K)"
    and "InteractionSpace_init K rnaseq ppi_dict itype gc tmpl verbose self0 w = (None, self, w1)"
    and "interaction_elements self = Some E" and "binary_rnaseq self = Some b"
  shows "set (pairs E) = set (columns b) \<times> set (columns b)"
proof -
  from init_result [OF assms(2)] assms(3,4)
  obtain p where "generate_interaction_elements K b p itype tmpl verbose w = (Inr E, w1)"
    by auto
  from gie_result(1) [OF this] show ?thesis
    by (simp add: permuting_set [OF assms(1)] set_combinations2_doubled)
qed

lemma ex_elements:
  "interaction_elements (fst (snd (ex_init K tmpl w)))
     = Some (the (interaction_elements (fst (snd (ex_init K tmpl w)))))"
  if "fst (ex_init K tmpl w) = None"
proof -
  from that have "ex_init K tmpl w = (None, fst (snd (ex_init K tmpl w)), snd (snd (ex_init K tmpl w)))"
    by (simp add: prod_eq_iff)
  from init_result [OF this [unfolded ex_init_def]] show ?thesis
    by (auto simp: ex_init_def)
qed

lemma ex_binary:
  "binary_rnaseq (fst (snd (ex_init K tmpl w)))
     = Some (the (binary_rnaseq (fst (snd (ex_init K tmpl w)))))"
  if "fst (ex_init K tmpl w) = None"
proof -
  from that have "ex_init K tmpl w = (None, fst (snd (ex_init K tmpl w)), snd (snd (ex_init K tmpl w)))"
    by (simp add: prod_eq_iff)
  from init_result [OF this [unfolded ex_init_def]] show ?thesis
    by (auto simp: ex_init_def)
qed

lemmas run_defs = ex_run_def compute_pairwise_interactions_def pairwise_interaction_def
  spec_cci_score_from_binary_def qualifying_edges_def

lemma ex_run_ok: "fst (ex_run spec_env None w0) = None"
  by (simp add: ex_defs run_defs w0_def)

lemma ex_columns: "columns (the (binary_rnaseq (fst (snd (ex_init spec_env None w0))))) = [''A'', ''B'']"
  by (simp add: ex_defs w0_def)

lemma ex_matrix: "cci_matrix (the (interaction_elements (fst (snd (ex_init spec_env None w0))))) = 0"
  by (simp add: ex_defs w0_def)

text \<open>
  C2. After a scoring pass that completes on a constructed instance, the CCI matrix is
  symmetric on the cell labels: the positions (i, j) and (j, i) hold one and the same score,
  computed for these two cells; and the step for a pair (i, j) writes both positions.
\<close>

theorem cci_matrix_symmetric:
  assumes "permuting (pair_set_order K)"
    and "InteractionSpace_init K rnaseq ppi_dict itype gc tmpl verbose self0 w = (None, self, w1)"
    and "compute_pairwise_interactions K self verbose' w1 = (None, w2)"
    and "interaction_elements self = Some E" and "binary_rnaseq self = Some b"
    and "i \<in> set (columns b)" and "j \<in> set (columns b)"
  shows "data (heap w2 (cci_matrix E)) (i, j) = data (heap w2 (cci_matrix E)) (j, i)
         \<and> (\<exists>s. data (heap w2 (cci_matrix E)) (i, j) = Some s)
         \<and> (\<forall>wa wb. pairs_loop K self E verbose' [(i, j)] wa = (None, wb) \<longrightarrow>
               (\<exists>s. data (heap wb (cci_matrix E)) (i, j) = Some s
                    \<and> data (heap wb (cci_matrix E)) (j, i) = Some s))"
proof -
  have loop: "pairs_loop K self E verbose' (pairs E) w1 = (None, w2)"
    using assms(2,3,4,5) by (rule constructed_run(2))
  have "set (pairs E) = set (columns b) \<times> set (columns b)"
    using assms(1,2,4,5) by (rule constructed_pairs)
  then have ij: "(i, j) \<in> set (pairs E)" using assms(6,7) by simp
  have sym: "data (heap w2 (cci_matrix E)) (i, j) = data (heap w2 (cci_matrix E)) (j, i)"
    using pairs_loop_symmetric [OF loop, where i = i and j = j] ij by simp
  have written: "\<exists>s. data (heap w2 (cci_matrix E)) (i, j) = Some s"
    using pairs_loop_written [OF loop, where i = i and j = j] ij by auto
  have step: "\<exists>s. data (heap wb (cci_matrix E)) (i, j) = Some s
                \<and> data (heap wb (cci_matrix E)) (j, i) = Some s"
    if "pairs_loop K self E verbose' [(i, j)] wa = (None, wb)" for wa wb
  proof -
    from pairs_loop_written [OF that, where i = i and j = j] obtain s
      where "data (heap wb (cci_matrix E)) (i, j) = Some s" by auto
    moreover have "data (heap wb (cci_matrix E)) (i, j) = data (heap wb (cci_matrix E)) (j, i)"
      using pairs_loop_symmetric [OF that, where i = i and j = j] by simp
    ultimately show ?thesis by auto
  qed
  from sym written step show ?thesis by blast
qed

theorem cci_matrix_symmetric_witness:
  "permuting (pair_set_order spec_env)
   \<and> fst (ex_init spec_env None w0) = None \<and> fst (ex_run spec_env None w0) = None
   \<and> data (heap (snd (ex_run spec_env None w0)) 0) (''A'', ''B'')
       = data (heap (snd (ex_run spec_env None w0)) 0) (''B'', ''A'')"
proof -
  let ?I = "ex_init spec_env None w0"
  let ?R = "ex_run spec_env None w0"
  have i: "InteractionSpace_init spec_env ex_rnaseq ex_ppi_dict ''physical'' ex_cutoffs None False
             fresh_instance w0 = (None, fst (snd ?I), snd (snd ?I))"
    using ex_init_ok by (simp add: ex_init_def prod_eq_iff)
  have r: "compute_pairwise_interactions spec_env (fst (snd ?I)) False (snd (snd ?I))
             = (None, snd ?R)"
    using ex_run_ok by (simp add: ex_run_def prod_eq_iff)
  have a: "''A'' \<in> set (columns (the (binary_rnaseq (fst (snd ?I)))))"
    and b: "''B'' \<in> set (columns (the (binary_rnaseq (fst (snd ?I)))))"
    by (simp_all add: ex_columns)
  show ?thesis
    using cci_matrix_symmetric [OF permuting_spec_env i r ex_elements [OF ex_init_ok]
            ex_binary [OF ex_init_ok] a b]
      permuting_spec_env ex_init_ok ex_run_ok
    by (simp add: ex_matrix)
qed

subsection \<open>The diagonal of the matrix\<close>

lemma ex_run_collapse:
  "compute_pairwise_interactions K (fst (snd (ex_init K tmpl w))) False (snd (snd (ex_init K tmpl w)))
     = (None, snd (ex_run K tmpl w))"
  if "fst (ex_run K tmpl w) = None"
  using that by (simp add: ex_run_def prod_eq_iff)

lemma ex_init_collapse:
  "InteractionSpace_init K ex_rnaseq ex_ppi_dict ''physical'' ex_cutoffs tmpl False fresh_instance w
     = (None, fst (snd (ex_init K tmpl w)), snd (snd (ex_init K tmpl w)))"
  if "fst (ex_init K tmpl w) = None"
  using that by (simp add: ex_init_def prod_eq_iff)

lemma ex_init_heap:
  "data (heap (snd (snd (ex_init spec_env None w0))) 0) (''A'', ''A'') = Some 0"
  by (simp add: ex_defs w0_def zeros_def)

lemma ex_run_diagonal:
  "data (heap (snd (ex_run spec_env None w0)) 0) (''A'', ''A'') = Some (8 / 10)"
  by (simp add: ex_defs run_defs w0_def store_loc_data)

lemma ex_run_calls:
  "(the (map_of (cells (the (interaction_elements (fst (snd (ex_init spec_env None w0)))))) ''A''),
    the (map_of (cells (the (interaction_elements (fst (snd (ex_init spec_env None w0)))))) ''A''))
     \<in> set (calls (snd (ex_run spec_env None w0)))"
  by (simp add: ex_defs run_defs w0_def store_loc_calls)

text \<open>
  C3 (as stated, refuted). The claim: the scorer is never invoked with cell1 = cell2, and
  every diagonal entry keeps its initial value. On the small analysis the matrix starts at 0
  on the diagonal; the pass calls the scorer with the cell A as both arguments and leaves
  0.8 at (A, A).
\<close>

theorem diagonal_claim_counterexample:
  "fst (ex_init spec_env None w0) = None \<and> fst (ex_run spec_env None w0) = None
   \<and> data (heap (snd (snd (ex_init spec_env None w0))) 0) (''A'', ''A'') = Some 0
   \<and> data (heap (snd (ex_run spec_env None w0)) 0) (''A'', ''A'') = Some (8 / 10)
   \<and> (the (map_of (cells (the (interaction_elements (fst (snd (ex_init spec_env None w0)))))) ''A''),
       the (map_of (cells (the (interaction_elements (fst (snd (ex_init spec_env None w0)))))) ''A''))
        \<in> set (calls (snd (ex_run spec_env None w0)))"
  using ex_init_ok ex_run_ok ex_init_heap ex_run_diagonal ex_run_calls by blast

text \<open>
  C3 (amended). The scoring pass invokes the pairwise scorer on every self-pair: for every
  cell label i it calls the scorer with the cell of i as both arguments, and after the pass
  the diagonal entry M[i,i] is the score of that call.
\<close>

theorem diagonal_scored:
  assumes "permuting (pair_set_order K)"
    and "InteractionSpace_init K rnaseq ppi_dict itype gc tmpl verbose self0 w = (None, self, w1)"
    and "compute_pairwise_interactions K self verbose' w1 = (None, w2)"
    and "interaction_elements self = Some E" and "binary_rnaseq self = Some b"
    and "i \<in> set (columns b)"
  shows "\<exists>c s. map_of (cells E) i = Some c \<and> cci_score_from_binary K c c = Inr s
           \<and> data (heap w2 (cci_matrix E)) (i, i) = Some s
           \<and> (\<exists>new. calls w2 = calls w1 @ new \<and> (c, c) \<in> set new)"
proof -
  have loop: "pairs_loop K self E verbose' (pairs E) w1 = (None, w2)"
    using assms(2,3,4,5) by (rule constructed_run(2))
  have "set (pairs E) = set (columns b) \<times> set (columns b)"
    using assms(1,2,4,5) by (rule constructed_pairs)
  then have ii: "(i, i) \<in> set (pairs E)" using assms(6) by simp
  from pairs_loop_written [OF loop, where i = i and j = i] ii
  obtain c s where c: "map_of (cells E) i = Some c"
    and s: "data (heap w2 (cci_matrix E)) (i, i) = Some s" "cci_score_from_binary K c c = Inr s"
    by auto
  from pairs_loop_calls [OF loop] obtain new where
    new: "calls w2 = calls w1 @ new"
    and all: "\<forall>p \<in> set (pairs E). \<exists>c1 c2. map_of (cells E) (fst p) = Some c1
                 \<and> map_of (cells E) (snd p) = Some c2 \<and> (c1, c2) \<in> set new"
    by blast
  from all ii c have "(c, c) \<in> set new" by fastforce
  with c s new show ?thesis by blast
qed

theorem diagonal_scored_witness:
  "permuting (pair_set_order spec_env)
   \<and> fst (ex_init spec_env None w0) = None \<and> fst (ex_run spec_env None w0) = None
   \<and> (\<exists>c s. map_of (cells (the (interaction_elements (fst (snd (ex_init spec_env None w0)))))) ''A''
               = Some c
           \<and> cci_score_from_binary spec_env c c = Inr s
           \<and> data (heap (snd (ex_run spec_env None w0)) 0) (''A'', ''A'') = Some s
           \<and> (c, c) \<in> set (calls (snd (ex_run spec_env None w0))))"
proof -
  have a: "''A'' \<in> set (columns (the (binary_rnaseq (fst (snd (ex_init spec_env None w0))))))"
    by (simp add: ex_columns)
  show ?thesis
    using diagonal_scored [OF permuting_spec_env ex_init_collapse [OF ex_init_ok]
            ex_run_collapse [OF ex_run_ok] ex_elements [OF ex_init_ok] ex_binary [OF ex_init_ok] a]
      permuting_spec_env ex_init_ok ex_run_ok
    by (auto simp: ex_matrix)
qed

subsection \<open>Construction with a template\<close>

lemma ex_init_template_ok: "fst (ex_init spec_env (Some 0) w_template) = None"
  by (simp add: ex_defs w_template_def w0_def)

lemma ex_run_template_ok: "fst (ex_run spec_env (Some 0) w_template) = None"
  by (simp add: ex_defs run_defs w_template_def w0_def)

lemma ex_columns_template:
  "columns (the (binary_rnaseq (fst (snd (ex_init spec_env (Some 0) w_template))))) = [''A'', ''B'']"
  by (simp add: ex_defs w_template_def w0_def)

lemma ex_template_labels:
  "index (heap w_template 0) = [''X''] \<and> columns (heap w_template 0) = [''X'']"
  by (simp add: w_template_def w0_def ex_template_def)

text \<open>
  C6 (as stated, refuted). The claim: a template whose labels differ from the cell labels
  makes construction raise. The template at address 0 is labelled X, the cells are A and B,
  and construction returns normally, with that template as the CCI matrix.
\<close>

theorem template_mismatch_counterexample:
  "index (heap w_template 0) = [''X''] \<and> columns (heap w_template 0) = [''X'']
   \<and> columns (the (binary_rnaseq (fst (snd (ex_init spec_env (Some 0) w_template))))) = [''A'', ''B'']
   \<and> fst (ex_init spec_env (Some 0) w_template) = None
   \<and> map_option cci_matrix (interaction_elements (fst (snd (ex_init spec_env (Some 0) w_template))))
       = Some 0"
proof -
  have "map_option cci_matrix (interaction_elements (fst (snd (ex_init spec_env (Some 0) w_template))))
          = Some 0"
    by (simp add: ex_defs w_template_def w0_def)
  then show ?thesis
    using ex_template_labels ex_columns_template ex_init_template_ok by blast
qed

text \<open>
  C6 (amended). Construction does not compare the labels of a supplied template with the
  cell labels: with a template, whatever matrix it is, construction raises exactly the error
  it raises without one, or none; and when it raises none, the template is the CCI matrix.
\<close>

theorem template_not_checked:
  "fst (InteractionSpace_init K rnaseq ppi_dict itype gc (Some a) verbose self (w\<lparr>heap := h\<rparr>))
     = fst (InteractionSpace_init K rnaseq ppi_dict itype gc None verbose self w)
   \<and> (fst (InteractionSpace_init K rnaseq ppi_dict itype gc (Some a) verbose self (w\<lparr>heap := h\<rparr>))
         = None \<longrightarrow>
       map_option cci_matrix (interaction_elements (fst (snd
         (InteractionSpace_init K rnaseq ppi_dict itype gc (Some a) verbose self (w\<lparr>heap := h\<rparr>)))))
         = Some a)"
proof -
  let ?I = "InteractionSpace_init K rnaseq ppi_dict itype gc (Some a) verbose self (w\<lparr>heap := h\<rparr>)"
  have "fst ?I = fst (InteractionSpace_init K rnaseq ppi_dict itype gc None verbose self w)"
    by (simp add: InteractionSpace_init_def generate_interaction_elements_def Let_def
          split: sum.splits option.splits)
  moreover have "map_option cci_matrix (interaction_elements (fst (snd ?I))) = Some a"
    if "fst ?I = None"
  proof -
    from that have "?I = (None, fst (snd ?I), snd (snd ?I))" by (simp add: prod_eq_iff)
    from init_result [OF this] obtain b p E where
      g: "generate_interaction_elements K b p itype (Some a) verbose (w\<lparr>heap := h\<rparr>)
            = (Inr E, snd (snd ?I))"
      and "interaction_elements (fst (snd ?I)) = Some E"
      by auto
    with gie_result(2) [OF g] show ?thesis by simp
  qed
  ultimately show ?thesis by blast
qed

theorem template_not_checked_witness:
  "index (heap w_template 0) = [''X'']
   \<and> fst (ex_init spec_env (Some 0) w_template) = None
   \<and> fst (ex_init spec_env None w_template) = None
   \<and> map_option cci_matrix (interaction_elements (fst (snd (ex_init spec_env (Some 0) w_template))))
       = Some 0"
proof -
  have w: "w_template\<lparr>heap := heap w_template\<rparr> = w_template" by simp
  have l: "index (heap w_template 0) = [''X'']" by (simp add: ex_template_labels)
  show ?thesis
    using template_not_checked [where K = spec_env and rnaseq = ex_rnaseq and ppi_dict = ex_ppi_dict
            and itype = "''physical''" and gc = ex_cutoffs and a = 0 and verbose = False
            and self = fresh_instance and w = w_template and h = "heap w_template"]
      ex_init_template_ok l
    unfolding w ex_init_def [symmetric]
    by simp
qed

text \<open>
  C9. A template supplied to construction is stored as \<open>cci_matrix\<close> itself: the interaction
  space holds the caller's address, and construction creates no matrix and changes none.
  The scoring pass then writes the scores into the caller's matrix, and into no other.
\<close>

theorem template_is_shared:
  assumes "permuting (pair_set_order K)"
    and "InteractionSpace_init K rnaseq ppi_dict itype gc (Some a) verbose self0 w = (None, self, w1)"
    and "compute_pairwise_interactions K self verbose' w1 = (None, w2)"
    and "interaction_elements self = Some E" and "binary_rnaseq self = Some b"
    and "i \<in> set (columns b)" and "j \<in> set (columns b)"
  shows "cci_matrix E = a \<and> w1 = w
         \<and> (\<exists>c1 c2 s. map_of (cells E) i = Some c1 \<and> map_of (cells E) j = Some c2
               \<and> data (heap w2 a) (i, j) = Some s
               \<and> (cci_score_from_binary K c1 c2 = Inr s \<or> cci_score_from_binary K c2 c1 = Inr s))
         \<and> (\<forall>a'. a' \<noteq> a \<longrightarrow> heap w2 a' = heap w a')"
proof -
  from constructed_run(1) [OF assms(2,3,4,5)]
  obtain p where g: "generate_interaction_elements K b p itype (Some a) verbose w = (Inr E, w1)"
    by blast
  from gie_result(2) [OF g] have same: "cci_matrix E = a" "w1 = w" by simp_all
  have loop: "pairs_loop K self E verbose' (pairs E) w1 = (None, w2)"
    using assms(2,3,4,5) by (rule constructed_run(2))
  have "set (pairs E) = set (columns b) \<times> set (columns b)"
    using assms(1,2,4,5) by (rule constructed_pairs)
  then have ij: "(i, j) \<in> set (pairs E)" using assms(6,7) by simp
  have written: "\<exists>c1 c2 s. map_of (cells E) i = Some c1 \<and> map_of (cells E) j = Some c2
               \<and> data (heap w2 a) (i, j) = Some s
               \<and> (cci_score_from_binary K c1 c2 = Inr s \<or> cci_score_from_binary K c2 c1 = Inr s)"
    using pairs_loop_written [OF loop, where i = i and j = j] ij same by simp
  have other: "heap w2 a' = heap w a'" if "a' \<noteq> a" for a'
    using pairs_loop_heap_other [OF loop, of a'] that same by simp
  from same written other show ?thesis by blast
qed

theorem template_is_shared_witness:
  "permuting (pair_set_order spec_env)
   \<and> fst (ex_init spec_env (Some 0) w_template) = None
   \<and> fst (ex_run spec_env (Some 0) w_template) = None
   \<and> snd (snd (ex_init spec_env (Some 0) w_template)) = w_template
   \<and> data (heap w_template 0) (''A'', ''B'') = None
   \<and> (\<exists>s. data (heap (snd (ex_run spec_env (Some 0) w_template)) 0) (''A'', ''B'') = Some s)"
proof -
  have a: "''A'' \<in> set (columns (the (binary_rnaseq (fst (snd (ex_init spec_env (Some 0) w_template))))))"
    and b: "''B'' \<in> set (columns (the (binary_rnaseq (fst (snd (ex_init spec_env (Some 0) w_template))))))"
    by (simp_all add: ex_columns_template)
  have before: "data (heap w_template 0) (''A'', ''B'') = None"
    by (simp add: w_template_def w0_def ex_template_def)
  show ?thesis
    using template_is_shared [OF permuting_spec_env ex_init_collapse [OF ex_init_template_ok]
            ex_run_collapse [OF ex_run_template_ok] ex_elements [OF ex_init_template_ok]
            ex_binary [OF ex_init_template_ok] a b]
      permuting_spec_env ex_init_template_ok ex_run_template_ok before
    by auto
qed

subsection \<open>Precomputed thresholds\<close>

text \<open>
  C4. The claim: a cutoff spec that supplies a precomputed threshold table is accepted and the
  table is used unchanged. The code does not do so. The message of its ValueError names a
  dataframe included in \<open>gene_cutoffs\<close> as the alternative to a \<open>type\<close>, but no branch
  takes one: a dictionary that holds a threshold table and no \<open>type\<close>, and the table passed
  as the spec itself, both make construction raise ValueError, where the resolver of the
  specification would return the table unchanged.
\<close>

theorem precomputed_table_rejected:
  "spec_get_cutoffs ex_rnaseq (Table ex_table) False = Inr ex_table
   \<and> fst (InteractionSpace_init spec_env ex_rnaseq ex_ppi_dict ''physical'' ex_table_dict
           None False fresh_instance w0) = Some ValueError
   \<and> fst (InteractionSpace_init spec_env ex_rnaseq ex_ppi_dict ''physical'' (Table ex_table)
           None False fresh_instance w0) = Some ValueError"
  by (simp add: InteractionSpace_init_def ex_table_def ex_table_dict_def spec_get_cutoffs_def)

subsection \<open>The order of the pair list\<close>













subsection \<open>The pairwise score\<close>

text \<open>
  C8. With the pairwise scorer of the specification, whatever its aggregation strategy,
  \<open>pairwise_interaction\<close> returns the same result for (cell1, cell2) and (cell2, cell1), on
  every instance and with or without \<open>verbose\<close>. When the call gets as far as the scorer
  and the restricted networks of the two cells share no edge, the score is 0; and the
  restricted network of a cell in which no gene is active is empty.
\<close>

theorem pairwise_interaction_symmetric:
  "fst (pairwise_interaction (K\<lparr>cci_score_from_binary := spec_score_with agg\<rparr>) self cell1 cell2 verbose w)
     = fst (pairwise_interaction (K\<lparr>cci_score_from_binary := spec_score_with agg\<rparr>) self cell2 cell1 verbose w)
   \<and> ((verbose \<longrightarrow> interaction_type self \<noteq> None) \<longrightarrow>
       binary_ppi cell1 = Some p1 \<longrightarrow> binary_ppi cell2 = Some p2 \<longrightarrow> set p1 \<inter> set p2 = {} \<longrightarrow>
         fst (pairwise_interaction (K\<lparr>cci_score_from_binary := spec_score_with agg\<rparr>)
                self cell1 cell2 verbose w) = Inr 0)
   \<and> ((\<forall>g. data (rnaseq_data cell1) (g, ''value'') \<noteq> Some True) \<longrightarrow>
         spec_get_binary_ppi ref (rnaseq_data cell1) ''value'' = Inr [])"
proof -
  let ?K = "K\<lparr>cci_score_from_binary := spec_score_with agg\<rparr>"
  have "fst (pairwise_interaction ?K self cell1 cell2 verbose w)
          = fst (pairwise_interaction ?K self cell2 cell1 verbose w)"
    using spec_score_with_commute [of agg cell1 cell2] by (simp add: pairwise_interaction_def)
  moreover have "fst (pairwise_interaction ?K self cell1 cell2 verbose w) = Inr 0"
    if "verbose \<longrightarrow> interaction_type self \<noteq> None" "binary_ppi cell1 = Some p1"
      "binary_ppi cell2 = Some p2" "set p1 \<inter> set p2 = {}"
  proof -
    from that(4) have "set (qualifying_edges p1 p2) = {}" by (simp add: qualifying_edges_set)
    then have "qualifying_edges p1 p2 = []" by simp
    with that(1,2,3) show ?thesis
      by (auto simp: pairwise_interaction_def spec_score_with_def)
  qed
  moreover have "spec_get_binary_ppi ref (rnaseq_data cell1) ''value'' = Inr []"
    if "\<forall>g. data (rnaseq_data cell1) (g, ''value'') \<noteq> Some True"
    using that by (auto simp: spec_get_binary_ppi_def filter_empty_conv)
  ultimately show ?thesis by blast
qed

theorem pairwise_interaction_symmetric_witness:
  "interaction_type ex_typed_instance \<noteq> None
   \<and> binary_ppi ex_cell_Z = Some [] \<and> binary_ppi ex_cell_A = Some [(''g1'', ''g2'', 8 / 10)]
   \<and> (\<forall>g. data (rnaseq_data ex_cell_Z) (g, ''value'') \<noteq> Some True)
   \<and> spec_get_binary_ppi [(''g1'', ''g2'', 8 / 10)] (rnaseq_data ex_cell_Z) ''value'' = Inr []
   \<and> fst (pairwise_interaction (spec_env\<lparr>cci_score_from_binary := spec_score_with sum_mset\<rparr>)
            ex_typed_instance ex_cell_Z ex_cell_A True w0) = Inr 0
   \<and> fst (pairwise_interaction (spec_env\<lparr>cci_score_from_binary := spec_score_with sum_mset\<rparr>)
            ex_typed_instance ex_cell_A ex_cell_Z True w0) = Inr 0"
proof -
  have t: "interaction_type ex_typed_instance \<noteq> None"
    by (simp add: ex_typed_instance_def fresh_instance_def)
  have a: "binary_ppi ex_cell_A = Some [(''g1'', ''g2'', 8 / 10)]" by (simp add: ex_cell_A_def)
  have b: "binary_ppi ex_cell_Z = Some []" by (simp add: ex_cell_Z_def)
  have z: "\<forall>g. data (rnaseq_data ex_cell_Z) (g, ''value'') \<noteq> Some True"
    by (simp add: ex_cell_Z_def)
  have q: "set ([] :: ppi) \<inter> set [(''g1'', ''g2'', 8 / 10)] = {}" by simp
  let ?K = "spec_env\<lparr>cci_score_from_binary := spec_score_with sum_mset\<rparr>"
  from pairwise_interaction_symmetric [where K = spec_env and agg = sum_mset
         and self = ex_typed_instance and ?cell1.0 = ex_cell_Z and ?cell2.0 = ex_cell_A
         and verbose = True and w = w0 and ?p1.0 = "[]" and ?p2.0 = "[(''g1'', ''g2'', 8 / 10)]"
         and ref = "[(''g1'', ''g2'', 8 / 10)]"] t a b z q
  have "fst (pairwise_interaction ?K ex_typed_instance ex_cell_A ex_cell_Z True w0)
          = fst (pairwise_interaction ?K ex_typed_instance ex_cell_Z ex_cell_A True w0)"
    and "fst (pairwise_interaction ?K ex_typed_instance ex_cell_Z ex_cell_A True w0) = Inr 0"
    and "spec_get_binary_ppi [(''g1'', ''g2'', 8 / 10)] (rnaseq_data ex_cell_Z) ''value'' = Inr []"
    by metis+
  with t a b z show ?thesis by simp
qed

end
